theory Spec2Isabelle
  imports Main "HOL-Library.Word" "HOL-Library.Multiset" "HOL-Library.Char_ord"
    "HOL-Library.List_Lexorder" "HOL-Library.Product_Lexorder"
begin

section \<open>Values and strings of the JavaScript run time\<close>

text \<open>
  A JavaScript string is a sequence of 16-bit code units. \<open>js\<close> gives the string of an
  ASCII literal. Document identifiers, paths and the fixed messages shown in the dialog
  are kept as HOL strings: the program passes them on and compares them, and never looks
  inside them.
\<close>

type_synonym code_unit = "16 word"

type_synonym jstring = "code_unit list"

definition js :: "string \<Rightarrow> jstring" where
  "js s = map (\<lambda>c. of_nat (of_char c)) s"

text \<open>
  The values that cross the two untyped boundaries of the program: the JSON body of an HTTP
  message and the field of a Firestore document. \<open>JUndefined\<close> is never the result of
  parsing JSON; it is what reading a missing property gives. The payload of \<open>JNum\<close> is
  never inspected by the program.
\<close>

datatype jsval =
    JUndefined
  | JNull
  | JBool bool
  | JNum int
  | JStr jstring
  | JArr "jsval list"
  | JObj "(jstring \<times> jsval) list"

datatype error = TypeError | SyntaxError | NetworkError | ApiCallFailed | FirestoreError

text \<open>
  \<open>v.k\<close>: reading a property of \<open>null\<close> or \<open>undefined\<close> throws a TypeError; an object gives
  the value of its last entry for the key (as \<open>JSON.parse\<close> keeps the last duplicate), and
  every other value has no such own property.
\<close>

fun get_prop :: "jsval \<Rightarrow> string \<Rightarrow> error + jsval" where
  "get_prop JUndefined k = Inl TypeError"
| "get_prop JNull k = Inl TypeError"
| "get_prop (JObj kvs) k =
     (case map_of (rev kvs) (js k) of None \<Rightarrow> Inr JUndefined | Some v \<Rightarrow> Inr v)"
| "get_prop v k = Inr JUndefined"

text \<open>JavaScript truthiness, and \<open>typeof v === "string"\<close>.\<close>

fun js_truthy :: "jsval \<Rightarrow> bool" where
  "js_truthy JUndefined = False"
| "js_truthy JNull = False"
| "js_truthy (JBool b) = b"
| "js_truthy (JNum n) = (n \<noteq> 0)"
| "js_truthy (JStr s) = (s \<noteq> [])"
| "js_truthy (JArr vs) = True"
| "js_truthy (JObj kvs) = True"

fun is_string :: "jsval \<Rightarrow> bool" where
  "is_string (JStr s) = True"
| "is_string v = False"

text \<open>A value of type \<open>string | null\<close> used as a condition: \<open>null\<close> and \<open>""\<close> are falsy.\<close>

definition truthy :: "string option \<Rightarrow> bool" where
  "truthy v = (case v of None \<Rightarrow> False | Some s \<Rightarrow> s \<noteq> [])"

text \<open>
  \<open>String.prototype.trim\<close> removes white space and line terminators from both ends. White
  space is U+0009, U+000B, U+000C, U+FEFF and the space separators of Unicode: U+0020,
  U+00A0, U+1680, U+2000 to U+200A, U+202F, U+205F and U+3000. The line terminators are
  U+000A, U+000D, U+2028 and U+2029. Each is one code unit.
\<close>

definition is_ws :: "code_unit \<Rightarrow> bool" where
  "is_ws c =
     (c \<in> set [0x0009, 0x000A, 0x000B, 0x000C, 0x000D, 0x0020, 0x00A0, 0x1680, 0x2028, 0x2029,
                0x202F, 0x205F, 0x3000, 0xFEFF] \<or>
      (0x2000 \<le> c \<and> c \<le> 0x200A))"

definition trim :: "jstring \<Rightarrow> jstring" where
  "trim s = rev (dropWhile is_ws (rev (dropWhile is_ws s)))"

section \<open>Data model\<close>

type_synonym timestamp = nat

datatype sender = UserSender | BotSender

text \<open>
  A document of \<open>rooms/{id}/massages\<close> (the collection name is spelled so in the source).
  TypeScript's \<open>text: string\<close> is not checked at run time: the field holds whatever value
  was written.
\<close>

record message_doc =
  mdoc_id :: string
  mdoc_text :: jsval
  mdoc_sender :: sender
  mdoc_createdAt :: timestamp

text \<open>
  A document of a snapshot of that collection, as \<open>doc.id\<close> and \<open>doc.data()\<close> give it to
  the listener: \<open>createdAt\<close> is \<open>null\<close> for a document this client has written and the
  server has not yet acknowledged.
\<close>

record snapshot_doc =
  sdoc_id :: string
  sdoc_text :: jsval
  sdoc_sender :: sender
  sdoc_createdAt :: "timestamp option"

text \<open>A write of this client that the server has not yet acknowledged.\<close>

record local_write =
  lw_id :: string
  lw_text :: jsval
  lw_sender :: sender

text \<open>
  The type \<open>Message\<close> of the Chat component. Its \<open>createdAt\<close> is copied from the snapshot
  and can be \<open>null\<close>, which the rendering guards against.
\<close>

record message =
  msg_id :: string
  msg_text :: jsval
  msg_sender :: sender
  msg_createdAt :: "timestamp option"

text \<open>A document of \<open>rooms\<close>, and the type \<open>Room\<close> of the Sidebar component.\<close>

record room_doc =
  rdoc_id :: string
  rdoc_name :: jstring
  rdoc_createdAt :: timestamp
  rdoc_createdBy :: "string option"

record room =
  room_id :: string
  room_name :: jstring
  room_createdAt :: timestamp

text \<open>The Firebase \<open>User\<close> object, of which the program reads \<open>uid\<close> only.\<close>

record firebase_user =
  uid :: string

text \<open>
  What the program does to the outside, in the order it does it. A path is
  \<open>rooms\<close> or \<open>rooms/{id}/massages\<close>.
\<close>

datatype event =
    SetInputMessage jstring
  | GetDocs string
  | AddDoc string
  | DeleteDoc string
  | Fetch jstring
  | ConsoleError
  | Alert

text \<open>
  The state of the page: the context of \<open>AppProvider\<close>, the state of the components
  \<open>Chat\<close> and \<open>Sidebar\<close> (with the listener each effect has open: its cleanup is
  \<open>unsubscribe\<close>), the two Firestore collections in insertion order, and the trace.
\<close>

record world =
  user :: "firebase_user option"
  userid :: "string option"
  selectedRoom :: "string option"
  selectedRoomName :: "jstring option"
  inputMessage :: jstring
  messages :: "message list"
  chat_listener :: "string option"
  rooms :: "room list"
  isModalOpen :: bool
  newRoomName :: jstring
  errorMessage :: string
  sidebar_listener :: bool
  rooms_col :: "room_doc list"
  massages_col :: "string \<Rightarrow> message_doc list"
  trace :: "event list"

definition emit :: "event \<Rightarrow> world \<Rightarrow> world" where
  "emit e w = w\<lparr>trace := trace w @ [e]\<rparr>"

section \<open>The document store\<close>

text \<open>
  Identifiers and server timestamps are assigned by the store, and a call may fail: the
  outcome of every call is chosen by the environment and given to the model as an argument.
\<close>

datatype write_outcome = Rejected | Accepted string timestamp

definition massages_path :: "string \<Rightarrow> string" where
  "massages_path r = ''rooms/'' @ r @ ''/massages''"

text \<open>
  \<open>addDoc(collection(db, "rooms"), {name, createdAt: serverTimestamp(), createdBy})\<close>.
\<close>

definition addDoc_rooms :: "write_outcome \<Rightarrow> jstring \<Rightarrow> string option \<Rightarrow> world \<Rightarrow> (error + unit) \<times> world" where
  "addDoc_rooms out name createdBy w =
     (let w1 = emit (AddDoc ''rooms'') w in
      case out of
        Rejected \<Rightarrow> (Inl FirestoreError, w1)
      | Accepted i t \<Rightarrow>
          (Inr (), w1\<lparr>rooms_col := rooms_col w1 @
             [\<lparr>rdoc_id = i, rdoc_name = name, rdoc_createdAt = t, rdoc_createdBy = createdBy\<rparr>]\<rparr>))"

text \<open>
  \<open>addDoc(collection(doc(db, "rooms", r), "massages"), {text, sender, createdAt: serverTimestamp()})\<close>.
  Firestore refuses a field whose value is \<open>undefined\<close> before it contacts the server.
\<close>

definition addDoc_massages :: "write_outcome \<Rightarrow> string \<Rightarrow> jsval \<Rightarrow> sender \<Rightarrow> world \<Rightarrow> (error + unit) \<times> world" where
  "addDoc_massages out r txt who w =
     (let w1 = emit (AddDoc (massages_path r)) w in
      if txt = JUndefined then (Inl FirestoreError, w1)
      else case out of
        Rejected \<Rightarrow> (Inl FirestoreError, w1)
      | Accepted i t \<Rightarrow>
          (Inr (), w1\<lparr>massages_col := (massages_col w1)(r := massages_col w1 r @
             [\<lparr>mdoc_id = i, mdoc_text = txt, mdoc_sender = who, mdoc_createdAt = t\<rparr>])\<rparr>))"

text \<open>\<open>deleteDoc(doc(db, "rooms", roomId))\<close>: the messages of the room are not touched.\<close>

definition deleteDoc_rooms :: "bool \<Rightarrow> string \<Rightarrow> world \<Rightarrow> (error + unit) \<times> world" where
  "deleteDoc_rooms ok i w =
     (let w1 = emit (DeleteDoc i) w in
      if ok then (Inr (), w1\<lparr>rooms_col := filter (\<lambda>d. rdoc_id d \<noteq> i) (rooms_col w1)\<rparr>)
      else (Inl FirestoreError, w1))"

text \<open>\<open>getDocs(query(collection(db, "rooms"), where("name", "==", n)))\<close>.\<close>

definition getDocs_rooms_where_name :: "bool \<Rightarrow> jstring \<Rightarrow> world \<Rightarrow> (error + room_doc list) \<times> world" where
  "getDocs_rooms_where_name ok n w =
     (let w1 = emit (GetDocs ''rooms'') w in
      if ok then (Inr (filter (\<lambda>d. rdoc_name d = n) (rooms_col w1)), w1)
      else (Inl FirestoreError, w1))"

section \<open>Sidebar: creating and deleting a room\<close>

text \<open>
  The two messages of \<open>handleCreateRoom\<close>, Japanese literals in the source, glossed here:
  "a chat room of the same name already exists" and "the chat room could not be created".
\<close>

definition duplicate_name_message :: string where
  "duplicate_name_message = ''a chat room of the same name already exists''"

definition create_failed_message :: string where
  "create_failed_message = ''the chat room could not be created''"

record create_env =
  query_ok :: bool
  room_write :: write_outcome

definition handleCreateRoom :: "create_env \<Rightarrow> world \<Rightarrow> world" where
  "handleCreateRoom env w =
     (if trim (newRoomName w) = [] then w
      else case getDocs_rooms_where_name (query_ok env) (trim (newRoomName w)) w of
        (Inl e, w1) \<Rightarrow> (emit ConsoleError w1)\<lparr>errorMessage := create_failed_message\<rparr>
      | (Inr querySnapshot, w1) \<Rightarrow>
          if querySnapshot \<noteq> [] then w1\<lparr>errorMessage := duplicate_name_message\<rparr>
          else
            (case addDoc_rooms (room_write env) (newRoomName w) (userid w) w1 of
               (Inl e, w2) \<Rightarrow> (emit ConsoleError w2)\<lparr>errorMessage := create_failed_message\<rparr>
             | (Inr u, w2) \<Rightarrow> w2\<lparr>newRoomName := [], errorMessage := [], isModalOpen := False\<rparr>))"

text \<open>
  \<open>handleDeleteRoom\<close>: \<open>confirmed\<close> is the answer to the confirmation dialog.
\<close>

record delete_env =
  confirmed :: bool
  delete_ok :: bool

definition handleDeleteRoom :: "delete_env \<Rightarrow> string \<Rightarrow> world \<Rightarrow> world" where
  "handleDeleteRoom env roomId w =
     (if \<not> confirmed env then w
      else case deleteDoc_rooms (delete_ok env) roomId w of
        (Inr u, w1) \<Rightarrow>
          if selectedRoom w = Some roomId
          then w1\<lparr>selectedRoom := None, selectedRoomName := None\<rparr>
          else w1
      | (Inl e, w1) \<Rightarrow> emit Alert (emit ConsoleError w1))"

section \<open>Live queries and the effects that hold them\<close>

text \<open>
  \<open>query(..., orderBy("createdAt", "asc"))\<close> on the messages of a room, as the listener
  of this client sees it: the documents of the collection in the order of their creation
  timestamps, equal timestamps in the order of the document identifiers, and after them
  the writes of this client that the server has not yet acknowledged, in the order they
  were made. The pending writes at the time of a delivery are given by the environment.
\<close>

definition committed_doc :: "message_doc \<Rightarrow> snapshot_doc" where
  "committed_doc d =
     \<lparr>sdoc_id = mdoc_id d, sdoc_text = mdoc_text d, sdoc_sender = mdoc_sender d,
      sdoc_createdAt = Some (mdoc_createdAt d)\<rparr>"

definition pending_doc :: "local_write \<Rightarrow> snapshot_doc" where
  "pending_doc p =
     \<lparr>sdoc_id = lw_id p, sdoc_text = lw_text p, sdoc_sender = lw_sender p,
      sdoc_createdAt = None\<rparr>"

definition massages_orderBy_createdAt_asc :: "world \<Rightarrow> string \<Rightarrow> local_write list \<Rightarrow> snapshot_doc list" where
  "massages_orderBy_createdAt_asc w r pend =
     map committed_doc (sort_key (\<lambda>d. (mdoc_createdAt d, mdoc_id d)) (massages_col w r)) @
     map pending_doc pend"

text \<open>
  \<open>query(..., orderBy("createdAt", "desc"))\<close> on the rooms, with no write pending: the
  reverse of the ascending order, equal timestamps in descending order of the identifiers.
\<close>

definition rooms_orderBy_createdAt_desc :: "world \<Rightarrow> room_doc list" where
  "rooms_orderBy_createdAt_desc w =
     rev (sort_key (\<lambda>d. (rdoc_createdAt d, rdoc_id d)) (rooms_col w))"

text \<open>
  The snapshot callback of the Chat component: every document of the snapshot becomes a
  \<open>Message\<close> and the list replaces the state.
\<close>

definition to_message :: "snapshot_doc \<Rightarrow> message" where
  "to_message d =
     \<lparr>msg_id = sdoc_id d, msg_text = sdoc_text d, msg_sender = sdoc_sender d,
      msg_createdAt = sdoc_createdAt d\<rparr>"

definition onSnapshot_massages :: "snapshot_doc list \<Rightarrow> world \<Rightarrow> world" where
  "onSnapshot_massages docs w = w\<lparr>messages := map to_message docs\<rparr>"

text \<open>
  A delivery happens only while the listener is open, and gives the callback the result
  of the query on the room the listener was opened for. \<open>chat_snapshot\<close> is the delivery
  with no write pending.
\<close>

definition chat_deliver :: "local_write list \<Rightarrow> world \<Rightarrow> world" where
  "chat_deliver pend w =
     (case chat_listener w of
        None \<Rightarrow> w
      | Some r \<Rightarrow> onSnapshot_massages (massages_orderBy_createdAt_asc w r pend) w)"

definition chat_snapshot :: "world \<Rightarrow> world" where
  "chat_snapshot w = chat_deliver [] w"

text \<open>The error callback of either listener only logs.\<close>

definition snapshot_error :: "world \<Rightarrow> world" where
  "snapshot_error w = emit ConsoleError w"

definition to_room :: "room_doc \<Rightarrow> room" where
  "to_room d = \<lparr>room_id = rdoc_id d, room_name = rdoc_name d, room_createdAt = rdoc_createdAt d\<rparr>"

definition sidebar_snapshot :: "world \<Rightarrow> world" where
  "sidebar_snapshot w =
     (if sidebar_listener w then w\<lparr>rooms := map to_room (rooms_orderBy_createdAt_desc w)\<rparr>
      else w)"

text \<open>
  The effect of the Chat component, with dependencies \<open>[selectedRoom, user, userid]\<close>.
  Its body either opens a listener and returns \<open>unsubscribe\<close> as cleanup, or empties the
  message list and returns no cleanup. When a dependency changes React runs the cleanup
  of the previous run, then the body. React compares the \<open>User\<close> objects by reference;
  here they are compared by value, which is the same for the change between an identity
  and none.
\<close>

definition chat_effect_body :: "world \<Rightarrow> world" where
  "chat_effect_body w =
     (if user w = None \<or> \<not> truthy (userid w) then w\<lparr>messages := []\<rparr>
      else if truthy (selectedRoom w) then w\<lparr>chat_listener := selectedRoom w\<rparr>
      else w\<lparr>messages := []\<rparr>)"

definition chat_effect_cleanup :: "world \<Rightarrow> world" where
  "chat_effect_cleanup w = w\<lparr>chat_listener := None\<rparr>"

definition chat_effect :: "world \<Rightarrow> world \<Rightarrow> world" where
  "chat_effect old w =
     (if (selectedRoom old, user old, userid old) \<noteq> (selectedRoom w, user w, userid w)
      then chat_effect_body (chat_effect_cleanup w)
      else w)"

text \<open>
  The effect of the Sidebar component, with dependencies \<open>[user, userid]\<close>: without an
  identity its body returns at once.
\<close>

definition sidebar_effect_body :: "world \<Rightarrow> world" where
  "sidebar_effect_body w =
     (if user w = None \<or> \<not> truthy (userid w) then w
      else w\<lparr>sidebar_listener := True\<rparr>)"

definition sidebar_effect_cleanup :: "world \<Rightarrow> world" where
  "sidebar_effect_cleanup w = w\<lparr>sidebar_listener := False\<rparr>"

definition sidebar_effect :: "world \<Rightarrow> world \<Rightarrow> world" where
  "sidebar_effect old w =
     (if (user old, userid old) \<noteq> (user w, userid w)
      then sidebar_effect_body (sidebar_effect_cleanup w)
      else w)"

text \<open>
  A handler changes the state; the render that follows runs again the effects whose
  dependencies changed.
\<close>

definition commit :: "world \<Rightarrow> world \<Rightarrow> world" where
  "commit old w = sidebar_effect old (chat_effect old w)"

definition react :: "(world \<Rightarrow> world) \<Rightarrow> world \<Rightarrow> world" where
  "react handler w = commit w (handler w)"

text \<open>
  The callback \<open>AppProvider\<close> gives to \<open>onAuthStateChanged\<close>: \<open>setUser(newUser)\<close> and
  \<open>setUserid(newUser ? newUser.uid : null)\<close>.
\<close>

definition authStateChanged :: "firebase_user option \<Rightarrow> world \<Rightarrow> world" where
  "authStateChanged newUser w =
     w\<lparr>user := newUser, userid := (case newUser of None \<Rightarrow> None | Some u \<Rightarrow> Some (uid u))\<rparr>"

text \<open>Clicking a room of the list: \<open>setSelectedRoom(room.id); setSelectedRoomName(room.name)\<close>.\<close>

definition selectRoom :: "room \<Rightarrow> world \<Rightarrow> world" where
  "selectRoom r w = w\<lparr>selectedRoom := Some (room_id r), selectedRoomName := Some (room_name r)\<rparr>"

section \<open>The completion endpoint: \<open>POST /api/chat\<close>\<close>

text \<open>
  What the OpenAI client gives back: the call throws (also when the client cannot be
  constructed), or it returns the list \<open>choices\<close>, each with an optional \<open>message\<close> whose
  \<open>content\<close> is a string or \<open>null\<close>.
\<close>

record chat_message =
  content :: "jstring option"

record choice =
  message :: "chat_message option"

datatype openai_outcome = OpenAIThrows | Completion "choice list"

record http_response =
  status :: nat
  body :: jsval

text \<open>
  The three strings of the route, Japanese literals in the source, glossed here: "a message
  is required", "the AI response could not be generated" and the fallback "sorry, no
  response could be generated".
\<close>

definition message_required :: jstring where
  "message_required = js ''a message is required''"

definition generation_failed :: jstring where
  "generation_failed = js ''the AI response could not be generated''"

definition fallback_response :: jstring where
  "fallback_response = js ''sorry, no response could be generated''"

text \<open>\<open>response.choices[0].message?.content || fallback\<close>, once \<open>choices[0]\<close> exists.\<close>

definition aiResponse :: "choice \<Rightarrow> jstring" where
  "aiResponse c =
     (case message c of
        None \<Rightarrow> fallback_response
      | Some m \<Rightarrow>
          (case content m of
             None \<Rightarrow> fallback_response
           | Some s \<Rightarrow> if s \<noteq> [] then s else fallback_response))"

text \<open>
  The handler. Its request is the result of \<open>req.json()\<close>: \<open>None\<close> when the body is not
  JSON. Everything thrown inside the handler is caught and answered with status 500;
  \<open>NextResponse.json\<close> without a status answers 200.
\<close>

definition POST :: "jsval option \<Rightarrow> openai_outcome \<Rightarrow> http_response" where
  "POST req ai =
     (let caught = \<lparr>status = 500, body = JObj [(js ''error'', JStr generation_failed)]\<rparr> in
      case req of
        None \<Rightarrow> caught
      | Some json \<Rightarrow>
          (case get_prop json ''message'' of
             Inl e \<Rightarrow> caught
           | Inr msg \<Rightarrow>
               if \<not> js_truthy msg \<or> \<not> is_string msg
               then \<lparr>status = 400, body = JObj [(js ''error'', JStr message_required)]\<rparr>
               else
                 (case ai of
                    OpenAIThrows \<Rightarrow> caught
                  | Completion choices \<Rightarrow>
                      (case choices of
                         [] \<Rightarrow> caught
                       | c # cs \<Rightarrow>
                           \<lparr>status = 200, body = JObj [(js ''response'', JStr (aiResponse c))]\<rparr>))))"

section \<open>Chat: sending a message\<close>

text \<open>
  What \<open>fetch("/api/chat", ...)\<close> gives the client: the promise rejects, or a response
  arrives with its \<open>ok\<close> flag and the result of \<open>response.json()\<close> (\<open>None\<close> when the
  body is not JSON).
\<close>

datatype fetch_outcome = FetchRejects | FetchResponse bool "jsval option"

text \<open>The response the client sees when the request reaches the route above.\<close>

definition fetch_route :: "jstring \<Rightarrow> openai_outcome \<Rightarrow> fetch_outcome" where
  "fetch_route userMessage ai =
     (let r = POST (Some (JObj [(js ''message'', JStr userMessage)])) ai
      in FetchResponse (200 \<le> status r \<and> status r \<le> 299) (Some (body r)))"

text \<open>
  The apology of \<open>fetchAIResponse\<close>, a Japanese literal in the source, glossed here:
  "sorry, the AI response could not be obtained".
\<close>

definition apology :: jstring where
  "apology = js ''sorry, the AI response could not be obtained''"

text \<open>The outcomes of the calls one \<open>sendMessage\<close> can make, in the order it makes them.\<close>

record send_env =
  human_write :: write_outcome
  completion :: fetch_outcome
  reply_write :: write_outcome
  apology_write :: write_outcome

text \<open>
  The \<open>try\<close> block of \<open>fetchAIResponse\<close> up to the value of \<open>data.response\<close>: the
  promise of \<open>fetch\<close> rejects, \<open>response.ok\<close> is false and the code throws,
  \<open>response.json()\<close> rejects, or the property is read.
\<close>

definition completion_result :: "fetch_outcome \<Rightarrow> error + jsval" where
  "completion_result out =
     (case out of
        FetchRejects \<Rightarrow> Inl NetworkError
      | FetchResponse ok payload \<Rightarrow>
          if \<not> ok then Inl ApiCallFailed
          else
            (case payload of
               None \<Rightarrow> Inl SyntaxError
             | Some data \<Rightarrow> get_prop data ''response''))"

text \<open>The whole \<open>try\<close> block: the value is then written as the reply of the bot.\<close>

definition fetchAIResponse_try :: "send_env \<Rightarrow> string \<Rightarrow> jstring \<Rightarrow> world \<Rightarrow> (error + unit) \<times> world" where
  "fetchAIResponse_try env r userMessage w =
     (let w1 = emit (Fetch userMessage) w in
      case completion_result (completion env) of
        Inl e \<Rightarrow> (Inl e, w1)
      | Inr v \<Rightarrow> addDoc_massages (reply_write env) r v BotSender w1)"

text \<open>
  \<open>fetchAIResponse\<close>: its \<open>catch\<close> logs and writes the apology; an error of that write
  leaves the function.
\<close>

definition fetchAIResponse :: "send_env \<Rightarrow> string \<Rightarrow> jstring \<Rightarrow> world \<Rightarrow> (error + unit) \<times> world" where
  "fetchAIResponse env r userMessage w =
     (case fetchAIResponse_try env r userMessage w of
        (Inr u, w1) \<Rightarrow> (Inr u, w1)
      | (Inl e, w1) \<Rightarrow>
          addDoc_massages (apology_write env) r (JStr apology) BotSender (emit ConsoleError w1))"

text \<open>
  Steps 3 and 4 of a send, the call of the completion service and the write of its reply,
  fail when the \<open>try\<close> block throws: before a value is read, or in the write of a
  value that is \<open>undefined\<close> or that the store rejects.
\<close>

definition reply_fails :: "send_env \<Rightarrow> bool" where
  "reply_fails env =
     (case completion_result (completion env) of
        Inl e \<Rightarrow> True
      | Inr v \<Rightarrow> v = JUndefined \<or> reply_write env = Rejected)"

text \<open>The guard of \<open>sendMessage\<close>: \<open>!user || !userid || !selectedRoom || inputMessage.trim() === ""\<close>.\<close>

definition send_guard :: "world \<Rightarrow> bool" where
  "send_guard w =
     (user w = None \<or> \<not> truthy (userid w) \<or> \<not> truthy (selectedRoom w) \<or> trim (inputMessage w) = [])"

text \<open>
  \<open>sendMessage\<close>. The room is the one of the render the handler belongs to; whatever is
  thrown after the input was cleared is caught and logged.
\<close>

definition sendMessage :: "send_env \<Rightarrow> world \<Rightarrow> world" where
  "sendMessage env w =
     (if send_guard w then w
      else case selectedRoom w of
        None \<Rightarrow> w
      | Some r \<Rightarrow>
          (let userMessageText = inputMessage w;
               w1 = emit (SetInputMessage []) (w\<lparr>inputMessage := []\<rparr>)
           in case addDoc_massages (human_write env) r (JStr userMessageText) UserSender w1 of
                (Inl e, w2) \<Rightarrow> emit ConsoleError w2
              | (Inr u, w2) \<Rightarrow>
                  (case fetchAIResponse env r userMessageText w2 of
                     (Inl e, w3) \<Rightarrow> emit ConsoleError w3
                   | (Inr u, w3) \<Rightarrow> w3)))"

text \<open>Typing into the input field: \<open>onChange\<close> stores the value of the field.\<close>

definition typeInput :: "jstring \<Rightarrow> world \<Rightarrow> world" where
  "typeInput s w = emit (SetInputMessage s) (w\<lparr>inputMessage := s\<rparr>)"

text \<open>Typing into the field of the new-room dialog.\<close>

definition typeRoomName :: "jstring \<Rightarrow> world \<Rightarrow> world" where
  "typeRoomName s w = w\<lparr>newRoomName := s\<rparr>"

text \<open>
  The page as it is first rendered, before the identity provider has reported: the effects
  have run once, without an identity, and opened nothing.
\<close>

definition initial_world :: world where
  "initial_world =
     \<lparr>user = None, userid = None, selectedRoom = None, selectedRoomName = None,
      inputMessage = [], messages = [], chat_listener = None,
      rooms = [], isModalOpen = False, newRoomName = [], errorMessage = [],
      sidebar_listener = False, rooms_col = [], massages_col = (\<lambda>r. []), trace = []\<rparr>"

section \<open>A session\<close>

text \<open>
  The states of one session, each reached from the first render by the handlers above:
  a user signs in, creates the room "Demo", the list is delivered, the user opens the room
  and types.
\<close>

definition alice :: firebase_user where
  "alice = \<lparr>uid = ''u1''\<rparr>"

definition signed_in :: world where
  "signed_in = react (authStateChanged (Some alice)) initial_world"

definition demo_created :: world where
  "demo_created =
     sidebar_snapshot
       (react (handleCreateRoom \<lparr>query_ok = True, room_write = Accepted ''r1'' 1\<rparr>)
          (typeRoomName (js ''Demo'') signed_in))"

definition demo_room :: room where
  "demo_room = \<lparr>room_id = ''r1'', room_name = js ''Demo'', room_createdAt = 1\<rparr>"

definition demo_open :: world where
  "demo_open = chat_snapshot (react (selectRoom demo_room) demo_created)"

definition hello_typed :: world where
  "hello_typed = typeInput (js ''hello'') demo_open"

definition blanks_typed :: world where
  "blanks_typed = typeInput (js ''   '') demo_open"

text \<open>The user types one ideographic space, U+3000.\<close>

definition wide_blank_typed :: world where
  "wide_blank_typed = typeInput [0x3000] demo_open"

text \<open>Environments of a send: everything succeeds, or one call fails.\<close>

definition all_well :: send_env where
  "all_well =
     \<lparr>human_write = Accepted ''m1'' 10,
      completion = fetch_route (js ''hello'')
        (Completion [\<lparr>message = Some \<lparr>content = Some (js ''hi there'')\<rparr>\<rparr>]),
      reply_write = Accepted ''m2'' 11,
      apology_write = Accepted ''m3'' 12\<rparr>"

definition human_write_fails :: send_env where
  "human_write_fails = all_well\<lparr>human_write := Rejected\<rparr>"

definition completion_fails :: send_env where
  "completion_fails = all_well\<lparr>completion := fetch_route (js ''hello'') OpenAIThrows\<rparr>"

definition reply_write_fails :: send_env where
  "reply_write_fails = all_well\<lparr>reply_write := Rejected\<rparr>"

definition apology_write_fails :: send_env where
  "apology_write_fails = completion_fails\<lparr>apology_write := Rejected\<rparr>"

text \<open>The room after a send in which every call succeeded and the snapshot was delivered.\<close>

definition chatting :: world where
  "chatting = chat_snapshot (sendMessage all_well hello_typed)"

text \<open>
  The room after a send whose reply the store stamped earlier than the message it answers:
  the timestamps are the store's, and the list of a collection is not kept in their order.
\<close>

definition late_reply :: world where
  "late_reply = sendMessage (all_well\<lparr>reply_write := Accepted ''m2'' 7\<rparr>) hello_typed"

text \<open>A second message of the user, written and not yet acknowledged.\<close>

definition again_pending :: local_write where
  "again_pending = \<lparr>lw_id = ''m4'', lw_text = JStr (js ''again''), lw_sender = UserSender\<rparr>"

text \<open>
  A room whose name starts with a space is created, and then created again; the store
  accepts every call.
\<close>

definition padded_once :: world where
  "padded_once =
     sidebar_snapshot
       (react (handleCreateRoom \<lparr>query_ok = True, room_write = Accepted ''r1'' 1\<rparr>)
          (typeRoomName (js '' Demo'') signed_in))"

definition padded_twice :: world where
  "padded_twice =
     sidebar_snapshot
       (react (handleCreateRoom \<lparr>query_ok = True, room_write = Accepted ''r2'' 2\<rparr>)
          (typeRoomName (js '' Demo'') padded_once))"

section \<open>Frame lemmas\<close>

lemma snapshot_error_keeps_views:
  "messages (snapshot_error w) = messages w \<and> rooms (snapshot_error w) = rooms w \<and>
   trace (snapshot_error w) = trace w @ [ConsoleError]"
  by (simp add: snapshot_error_def emit_def)

lemma sorted_map_fst_of_sorted_pairs:
  fixes ps :: "(nat \<times> string) list"
  assumes "sorted ps"
  shows "sorted (map fst ps)"
  using assms
  by (induction ps) (auto simp add: less_eq_prod_def)

lemma not_guard_room: "\<not> send_guard w \<Longrightarrow> \<exists>r. selectedRoom w = Some r"
  by (cases "selectedRoom w") (simp_all add: send_guard_def truthy_def)

lemma massages_col_caught:
  "massages_col (case x of (Inl e, w3) \<Rightarrow> emit ConsoleError w3 | (Inr u, w3) \<Rightarrow> w3) = massages_col (snd x)"
  by (cases x) (simp add: emit_def split: sum.splits)

lemma inputMessage_caught:
  "inputMessage (case x of (Inl e, w3) \<Rightarrow> emit ConsoleError w3 | (Inr u, w3) \<Rightarrow> w3) = inputMessage (snd x)"
  by (cases x) (simp add: emit_def split: sum.splits)

lemma trace_caught:
  "trace (case x of (Inl e, w3) \<Rightarrow> emit ConsoleError w3 | (Inr u, w3) \<Rightarrow> w3) =
     trace (snd x) @ (case fst x of Inl e \<Rightarrow> [ConsoleError] | Inr u \<Rightarrow> [])"
  by (cases x) (simp add: emit_def split: sum.splits)

lemma fetchAIResponse_inputMessage:
  "inputMessage (snd (fetchAIResponse env r txt v)) = inputMessage v"
  by (auto simp add: fetchAIResponse_def fetchAIResponse_try_def addDoc_massages_def
      emit_def Let_def split: sum.splits write_outcome.splits)

lemma trace_fetchAIResponse:
  "\<exists>rest. trace (snd (fetchAIResponse env r txt w)) = trace w @ rest \<and>
          (\<forall>s. SetInputMessage s \<notin> set rest)"
  by (auto simp add: fetchAIResponse_def fetchAIResponse_try_def addDoc_massages_def
      emit_def Let_def split: sum.splits write_outcome.splits)

lemma fetchAIResponse_fails:
  assumes "reply_fails env"
  shows "massages_col (snd (fetchAIResponse env r txt w)) =
           (case apology_write env of
              Rejected \<Rightarrow> massages_col w
            | Accepted j u \<Rightarrow> (massages_col w)(r := massages_col w r @
                [\<lparr>mdoc_id = j, mdoc_text = JStr apology, mdoc_sender = BotSender, mdoc_createdAt = u\<rparr>]))"
  using assms
  by (auto simp add: reply_fails_def fetchAIResponse_def fetchAIResponse_try_def addDoc_massages_def
      emit_def Let_def split: sum.splits write_outcome.splits)

lemma sendMessage_input:
  assumes "\<not> send_guard w"
  shows "inputMessage (sendMessage env w) = []"
proof -
  from assms obtain r where "selectedRoom w = Some r" using not_guard_room by blast
  with assms show ?thesis
    by (simp add: sendMessage_def addDoc_massages_def emit_def Let_def inputMessage_caught
        split: write_outcome.splits)
      (simp add: fetchAIResponse_inputMessage)
qed

section \<open>Room Directory\<close>

text \<open>
  Supporting fact for claim C1: when the typed name has no white space at either end, the
  query succeeds and a room of that name exists, nothing is written and the duplicate
  message is shown.
\<close>

lemma handleCreateRoom_rejects_trimmed_duplicate:
  assumes "query_ok env" and "newRoomName w \<noteq> []" and "trim (newRoomName w) = newRoomName w"
    and "d \<in> set (rooms_col w)" and "rdoc_name d = newRoomName w"
  shows "rooms_col (handleCreateRoom env w) = rooms_col w \<and>
         errorMessage (handleCreateRoom env w) = duplicate_name_message \<and>
         trace (handleCreateRoom env w) = trace w @ [GetDocs ''rooms'']"
proof -
  from assms(4,5) have "filter (\<lambda>d. rdoc_name d = newRoomName w) (rooms_col w) \<noteq> []"
    by (auto simp add: filter_empty_conv)
  with assms(1,2,3) show ?thesis
    by (simp add: handleCreateRoom_def getDocs_rooms_where_name_def emit_def)
qed

text \<open>
  Claim C1: for every Create(name) where a conversation of the identical display name
  exists, Create writes nothing and yields the duplicate-name condition.

  The code misses this for a name with white space at an end: the query looks for the
  trimmed name, the write stores the name as typed. Creating the room " Demo" twice,
  with every store call succeeding, leaves two rooms named " Demo", shows no error and
  made two writes.
\<close>

theorem handleCreateRoom_padded_name_twice:
  "map rdoc_name (rooms_col padded_once) = [js '' Demo''] \<and>
   map rdoc_name (rooms_col padded_twice) = [js '' Demo'', js '' Demo''] \<and>
   errorMessage padded_twice = [] \<and>
   trace padded_twice = [GetDocs ''rooms'', AddDoc ''rooms'', GetDocs ''rooms'', AddDoc ''rooms'']"
  by code_simp

text \<open>
  Claim C5: when a delete succeeds (the user confirmed and the store deleted the document),
  the selection, identifier and display name, is cleared if the deleted room is the
  selected one, and is left as it was otherwise. The document is gone from the collection.
\<close>

theorem handleDeleteRoom_selection:
  assumes "confirmed env" and "delete_ok env"
  shows "(selectedRoom w = Some roomId \<longrightarrow>
            selectedRoom (handleDeleteRoom env roomId w) = None \<and>
            selectedRoomName (handleDeleteRoom env roomId w) = None) \<and>
         (selectedRoom w \<noteq> Some roomId \<longrightarrow>
            selectedRoom (handleDeleteRoom env roomId w) = selectedRoom w \<and>
            selectedRoomName (handleDeleteRoom env roomId w) = selectedRoomName w) \<and>
         rooms_col (handleDeleteRoom env roomId w) = filter (\<lambda>d. rdoc_id d \<noteq> roomId) (rooms_col w)"
  using assms by (simp add: handleDeleteRoom_def deleteDoc_rooms_def emit_def)

theorem handleDeleteRoom_selection_witness:
  "selectedRoom demo_open = Some ''r1'' \<and>
   selectedRoomName demo_open = Some (js ''Demo'') \<and>
   selectedRoom (handleDeleteRoom \<lparr>confirmed = True, delete_ok = True\<rparr> ''r1'' demo_open) = None \<and>
   selectedRoomName (handleDeleteRoom \<lparr>confirmed = True, delete_ok = True\<rparr> ''r1'' demo_open) = None \<and>
   selectedRoom (handleDeleteRoom \<lparr>confirmed = True, delete_ok = True\<rparr> ''r2'' demo_open) = Some ''r1'' \<and>
   selectedRoomName (handleDeleteRoom \<lparr>confirmed = True, delete_ok = True\<rparr> ''r2'' demo_open) = Some (js ''Demo'')"
proof -
  have s: "selectedRoom demo_open = Some ''r1''" "selectedRoomName demo_open = Some (js ''Demo'')"
    by code_simp+
  show ?thesis
    using handleDeleteRoom_selection [of "\<lparr>confirmed = True, delete_ok = True\<rparr>" demo_open "''r1''"]
      handleDeleteRoom_selection [of "\<lparr>confirmed = True, delete_ok = True\<rparr>" demo_open "''r2''"] s
    by simp
qed

text \<open>
  Claim C9: when the delete call of the store fails, the selection, identifier and
  display name, is left as it was, and so is the collection: the selection is cleared in
  the \<open>try\<close> block after the awaited delete only.
\<close>

theorem handleDeleteRoom_failure:
  assumes "\<not> delete_ok env"
  shows "selectedRoom (handleDeleteRoom env roomId w) = selectedRoom w \<and>
         selectedRoomName (handleDeleteRoom env roomId w) = selectedRoomName w \<and>
         rooms_col (handleDeleteRoom env roomId w) = rooms_col w"
  using assms by (simp add: handleDeleteRoom_def deleteDoc_rooms_def emit_def)

theorem handleDeleteRoom_failure_witness:
  "selectedRoom (handleDeleteRoom \<lparr>confirmed = True, delete_ok = False\<rparr> ''r1'' demo_open) = Some ''r1'' \<and>
   selectedRoomName (handleDeleteRoom \<lparr>confirmed = True, delete_ok = False\<rparr> ''r1'' demo_open) = Some (js ''Demo'') \<and>
   trace (handleDeleteRoom \<lparr>confirmed = True, delete_ok = False\<rparr> ''r1'' demo_open) =
     trace demo_open @ [DeleteDoc ''r1'', ConsoleError, Alert]"
proof -
  have s: "selectedRoom demo_open = Some ''r1''" "selectedRoomName demo_open = Some (js ''Demo'')"
    by code_simp+
  have t: "trace (handleDeleteRoom \<lparr>confirmed = True, delete_ok = False\<rparr> ''r1'' demo_open) =
     trace demo_open @ [DeleteDoc ''r1'', ConsoleError, Alert]"
    by (simp add: handleDeleteRoom_def deleteDoc_rooms_def emit_def)
  show ?thesis
    using handleDeleteRoom_failure [of "\<lparr>confirmed = True, delete_ok = False\<rparr>" "''r1''" demo_open] s t
    by simp
qed

text \<open>
  Claim C10: when the identity becomes absent, the cleanup of the Sidebar effect closes
  the listener of the room list, and the body of the effect returns without touching the
  list: the rooms of the last snapshot stay, and no later snapshot changes them. The
  message list of the Chat component is emptied by the same render.
\<close>

theorem sign_out_keeps_rooms:
  assumes "user w \<noteq> None"
  shows "sidebar_listener (react (authStateChanged None) w) = False \<and>
         rooms (react (authStateChanged None) w) = rooms w \<and>
         sidebar_snapshot (react (authStateChanged None) w) = react (authStateChanged None) w \<and>
         messages (react (authStateChanged None) w) = []"
  using assms
  by (auto simp add: react_def commit_def authStateChanged_def chat_effect_def chat_effect_body_def
      chat_effect_cleanup_def sidebar_effect_def sidebar_effect_body_def sidebar_effect_cleanup_def
      sidebar_snapshot_def)

theorem sign_out_keeps_rooms_witness:
  "user chatting = Some alice \<and>
   sidebar_listener chatting \<and>
   rooms chatting = [demo_room] \<and>
   sidebar_listener (react (authStateChanged None) chatting) = False \<and>
   rooms (react (authStateChanged None) chatting) = [demo_room] \<and>
   messages (react (authStateChanged None) chatting) = []"
proof -
  have s: "user chatting = Some alice" "sidebar_listener chatting" "rooms chatting = [demo_room]"
    by code_simp+
  show ?thesis
    using sign_out_keeps_rooms [of chatting] s by simp
qed

section \<open>Message Stream\<close>

text \<open>Facts about the order of a snapshot.\<close>

lemma stamps_of_sorted_docs:
  "map mdoc_createdAt (sort_key (\<lambda>d. (mdoc_createdAt d, mdoc_id d)) ds) =
     sort (map mdoc_createdAt ds)"
proof -
  let ?key = "\<lambda>d. (mdoc_createdAt d, mdoc_id d)"
  have "sorted (map ?key (sort_key ?key ds))"
    by (rule sorted_sort_key)
  then have "sorted (map fst (map ?key (sort_key ?key ds)))"
    by (rule sorted_map_fst_of_sorted_pairs)
  then have "sorted (map mdoc_createdAt (sort_key ?key ds))"
    by (simp add: comp_def)
  moreover have "mset (map mdoc_createdAt (sort_key ?key ds)) = mset (map mdoc_createdAt ds)"
    by simp
  ultimately show ?thesis
    by (metis properties_for_sort)
qed

text \<open>
  Claim C4, as amended: every snapshot delivery replaces the local view of the Message
  Stream, whatever the view was. Right after a delivery the view holds the documents of
  the snapshot in its order: the N persisted messages of the conversation in
  non-decreasing order of their creation timestamps, and after them the writes of this
  client that are not yet acknowledged, whose creation timestamp is \<open>null\<close>. With no write
  pending these are exactly N entries, each with its timestamp. Nothing keeps the view
  equal to the log between deliveries.
\<close>

theorem chat_deliver_view:
  assumes "chat_listener w = Some r"
  shows "length (messages (chat_deliver pend w)) = length (massages_col w r) + length pend \<and>
         map msg_createdAt (messages (chat_deliver pend w)) =
           map Some (sort (map mdoc_createdAt (massages_col w r))) @ replicate (length pend) None \<and>
         mset (messages (chat_deliver pend w)) =
           image_mset (\<lambda>d. to_message (committed_doc d)) (mset (massages_col w r)) +
           image_mset (\<lambda>p. to_message (pending_doc p)) (mset pend) \<and>
         messages (chat_deliver pend (w\<lparr>messages := old\<rparr>)) = messages (chat_deliver pend w) \<and>
         length (messages (chat_snapshot w)) = length (massages_col w r) \<and>
         map msg_createdAt (messages (chat_snapshot w)) =
           map Some (sort (map mdoc_createdAt (massages_col w r)))"
proof -
  let ?sorted = "sort_key (\<lambda>d. (mdoc_createdAt d, mdoc_id d)) (massages_col w r)"
  have view: "messages (chat_deliver ps w) =
      map (\<lambda>d. to_message (committed_doc d)) ?sorted @ map (\<lambda>p. to_message (pending_doc p)) ps" for ps
    using assms
    by (simp add: chat_deliver_def onSnapshot_massages_def massages_orderBy_createdAt_asc_def)
  have committed: "map msg_createdAt (map (\<lambda>d. to_message (committed_doc d)) ds) =
      map Some (map mdoc_createdAt ds)" for ds
    by (simp add: to_message_def committed_doc_def comp_def)
  have pending: "map msg_createdAt (map (\<lambda>p. to_message (pending_doc p)) ps) =
      replicate (length ps) None" for ps
    by (induction ps) (simp_all add: to_message_def pending_doc_def)
  have stamps: "map msg_createdAt (messages (chat_deliver ps w)) =
      map Some (sort (map mdoc_createdAt (massages_col w r))) @ replicate (length ps) None" for ps
    unfolding view map_append committed pending stamps_of_sorted_docs ..
  have same: "messages (chat_deliver pend (w\<lparr>messages := old\<rparr>)) = messages (chat_deliver pend w)"
    using assms
    by (simp add: chat_deliver_def onSnapshot_massages_def massages_orderBy_createdAt_asc_def)
  have bag: "mset (messages (chat_deliver pend w)) =
      image_mset (\<lambda>d. to_message (committed_doc d)) (mset (massages_col w r)) +
      image_mset (\<lambda>p. to_message (pending_doc p)) (mset pend)"
    unfolding view by simp
  have "length (messages (chat_deliver pend w)) = length (massages_col w r) + length pend"
    unfolding view by simp
  moreover have "length (messages (chat_snapshot w)) = length (massages_col w r)"
    unfolding chat_snapshot_def view by simp
  moreover have "map msg_createdAt (messages (chat_snapshot w)) =
      map Some (sort (map mdoc_createdAt (massages_col w r)))"
    unfolding chat_snapshot_def using stamps [of "[]"] by simp
  ultimately show ?thesis
    using stamps [of pend] same bag by simp
qed

theorem chat_deliver_view_witness:
  "chat_listener late_reply = Some ''r1'' \<and>
   map mdoc_createdAt (massages_col late_reply ''r1'') = [10, 7] \<and>
   length (messages (chat_snapshot late_reply)) = 2 \<and>
   map msg_createdAt (messages (chat_snapshot late_reply)) = [Some 7, Some 10] \<and>
   length (messages (chat_deliver [again_pending] late_reply)) = 3 \<and>
   map msg_createdAt (messages (chat_deliver [again_pending] late_reply)) = [Some 7, Some 10, None]"
proof -
  have s: "chat_listener late_reply = Some ''r1''"
    "map mdoc_createdAt (massages_col late_reply ''r1'') = [10, 7]"
    by code_simp+
  have n: "length (massages_col late_reply ''r1'') = 2"
    by code_simp
  have o: "sort [10, 7 :: nat] = [7, 10]"
    by code_simp
  show ?thesis
    using chat_deliver_view [OF s(1), of "[again_pending]"] s n o by simp
qed

text \<open>
  The claim as it was stated fails. After a send whose two writes the store accepted, and
  before the next delivery, the listener of the room is open, the room has two persisted
  messages and the view has none. And a delivery made while a write is pending gives one
  entry more than the room has persisted messages, with \<open>null\<close> for its timestamp.
\<close>

theorem chat_view_counterexample:
  "chat_listener late_reply = Some ''r1'' \<and>
   length (massages_col late_reply ''r1'') = 2 \<and>
   messages late_reply = [] \<and>
   length (messages (chat_deliver [again_pending] late_reply)) = 3 \<and>
   map msg_createdAt (messages (chat_deliver [again_pending] late_reply)) = [Some 7, Some 10, None]"
  by code_simp

text \<open>
  Claim C8: when the identity becomes absent while the Message Stream is subscribed, the
  cleanup of the Chat effect closes the listener and the body of the effect empties the
  local view; no later delivery fills it again.
\<close>

theorem sign_out_resets_chat:
  assumes "user w \<noteq> None" and "chat_listener w = Some r"
  shows "chat_listener (react (authStateChanged None) w) = None \<and>
         messages (react (authStateChanged None) w) = [] \<and>
         chat_snapshot (react (authStateChanged None) w) = react (authStateChanged None) w \<and>
         chat_deliver pend (react (authStateChanged None) w) = react (authStateChanged None) w"
  using assms
  by (auto simp add: react_def commit_def authStateChanged_def chat_effect_def chat_effect_body_def
      chat_effect_cleanup_def sidebar_effect_def sidebar_effect_body_def sidebar_effect_cleanup_def
      chat_snapshot_def chat_deliver_def)

theorem sign_out_resets_chat_witness:
  "user chatting = Some alice \<and>
   chat_listener chatting = Some ''r1'' \<and>
   length (messages chatting) = 2 \<and>
   chat_listener (react (authStateChanged None) chatting) = None \<and>
   messages (react (authStateChanged None) chatting) = []"
proof -
  have s: "user chatting = Some alice" "chat_listener chatting = Some ''r1''"
    "length (messages chatting) = 2"
    by code_simp+
  show ?thesis
    using sign_out_resets_chat [of chatting "''r1''" "[]"] s by simp
qed

section \<open>Reply Dispatcher\<close>

text \<open>
  Claim C3, as amended: when there is no identity, no selected conversation, or the text is
  empty after trimming (empty, or white space and line terminators only), Send does
  nothing at all: no message is persisted, no call is made and the input state is left as
  it was. It is empty afterwards only if it was empty before.
\<close>

theorem sendMessage_guard_noop:
  assumes "user w = None \<or> \<not> truthy (userid w) \<or> \<not> truthy (selectedRoom w) \<or>
           trim (inputMessage w) = []"
  shows "sendMessage env w = w \<and>
         massages_col (sendMessage env w) = massages_col w \<and>
         inputMessage (sendMessage env w) = inputMessage w"
  using assms by (simp add: sendMessage_def send_guard_def)

theorem sendMessage_guard_noop_witness:
  "trim (inputMessage blanks_typed) = [] \<and>
   sendMessage all_well blanks_typed = blanks_typed \<and>
   inputMessage (sendMessage all_well blanks_typed) = js ''   '' \<and>
   trim (inputMessage wide_blank_typed) = [] \<and>
   sendMessage all_well wide_blank_typed = wide_blank_typed \<and>
   inputMessage (sendMessage all_well wide_blank_typed) = [0x3000] \<and>
   inputMessage (sendMessage all_well demo_open) = [] \<and>
   massages_col (sendMessage all_well blanks_typed) = massages_col blanks_typed"
proof -
  have s: "trim (inputMessage blanks_typed) = []" "trim (inputMessage demo_open) = []"
    "trim (inputMessage wide_blank_typed) = []"
    "inputMessage demo_open = []" "inputMessage blanks_typed = js ''   ''"
    "inputMessage wide_blank_typed = [0x3000]"
    by code_simp+
  show ?thesis
    using sendMessage_guard_noop [of blanks_typed all_well]
      sendMessage_guard_noop [of wide_blank_typed all_well]
      sendMessage_guard_noop [of demo_open all_well] s
    by simp
qed

text \<open>
  The claim as it was stated fails: with an identity and a selected room, sending three
  spaces leaves the three spaces in the input state.
\<close>

theorem sendMessage_blanks_counterexample:
  "user blanks_typed = Some alice \<and>
   selectedRoom blanks_typed = Some ''r1'' \<and>
   trim (inputMessage blanks_typed) = [] \<and>
   inputMessage (sendMessage all_well blanks_typed) = js ''   '' \<and>
   inputMessage (sendMessage all_well blanks_typed) \<noteq> []"
  by code_simp

text \<open>
  Claim C6: a Send that passes the guard clears the input field before anything else: the
  clearing is the first thing it does, the store and the completion service are called
  after it, and the field is empty at the end whatever those calls did.
\<close>

theorem sendMessage_clears_input_first:
  assumes "\<not> send_guard w"
  shows "inputMessage (sendMessage env w) = [] \<and>
         (\<exists>rest. trace (sendMessage env w) = trace w @ SetInputMessage [] # rest \<and>
                 (\<forall>s. SetInputMessage s \<notin> set rest))"
proof -
  from assms obtain r where r: "selectedRoom w = Some r" using not_guard_room by blast
  have order: "\<exists>rest. trace (sendMessage env w) = trace w @ SetInputMessage [] # rest \<and>
                 (\<forall>s. SetInputMessage s \<notin> set rest)"
  proof (cases "human_write env")
    case Rejected
    with assms r show ?thesis
      by (simp add: sendMessage_def addDoc_massages_def emit_def)
  next
    case (Accepted i t)
    let ?w2 = "snd (addDoc_massages (human_write env) r (JStr (inputMessage w)) UserSender
                 (emit (SetInputMessage []) (w\<lparr>inputMessage := []\<rparr>)))"
    let ?last = "case fst (fetchAIResponse env r (inputMessage w) ?w2) of
                   Inl e \<Rightarrow> [ConsoleError] | Inr u \<Rightarrow> []"
    obtain rest where rest: "trace (snd (fetchAIResponse env r (inputMessage w) ?w2)) = trace ?w2 @ rest"
      "\<forall>s. SetInputMessage s \<notin> set rest"
      using trace_fetchAIResponse by blast
    have "trace (sendMessage env w) =
            trace w @ SetInputMessage [] # (AddDoc (massages_path r) # rest @ ?last)"
      using assms r Accepted rest(1)
      by (simp add: sendMessage_def addDoc_massages_def emit_def Let_def trace_caught)
    moreover have "\<forall>s. SetInputMessage s \<notin> set (AddDoc (massages_path r) # rest @ ?last)"
      using rest(2) by (auto split: sum.splits)
    ultimately show ?thesis by blast
  qed
  with sendMessage_input [OF assms] show ?thesis by simp
qed

theorem sendMessage_clears_input_first_witness:
  "\<not> send_guard hello_typed \<and>
   inputMessage hello_typed = js ''hello'' \<and>
   inputMessage (sendMessage all_well hello_typed) = [] \<and>
   inputMessage (sendMessage human_write_fails hello_typed) = [] \<and>
   inputMessage (sendMessage apology_write_fails hello_typed) = [] \<and>
   trace (sendMessage apology_write_fails hello_typed) =
     trace hello_typed @
       [SetInputMessage [], AddDoc ''rooms/r1/massages'', Fetch (js ''hello''), ConsoleError,
        AddDoc ''rooms/r1/massages'', ConsoleError]"
proof -
  have g: "\<not> send_guard hello_typed" by code_simp
  have s: "inputMessage hello_typed = js ''hello''"
    "trace (sendMessage apology_write_fails hello_typed) =
     trace hello_typed @
       [SetInputMessage [], AddDoc ''rooms/r1/massages'', Fetch (js ''hello''), ConsoleError,
        AddDoc ''rooms/r1/massages'', ConsoleError]"
    by code_simp+
  show ?thesis
    using sendMessage_clears_input_first [OF g, of all_well]
      sendMessage_clears_input_first [OF g, of human_write_fails]
      sendMessage_clears_input_first [OF g, of apology_write_fails] g s
    by simp
qed

text \<open>
  Supporting fact for claim C2: when every step succeeds the log gains the human message
  and the reply of the service, and no apology.
\<close>

lemma sendMessage_success:
  assumes "\<not> send_guard w" and "selectedRoom w = Some r"
    and "human_write env = Accepted i t"
    and "completion_result (completion env) = Inr v" and "v \<noteq> JUndefined"
    and "reply_write env = Accepted j u"
  shows "massages_col (sendMessage env w) = (massages_col w)(r := massages_col w r @
           [\<lparr>mdoc_id = i, mdoc_text = JStr (inputMessage w), mdoc_sender = UserSender, mdoc_createdAt = t\<rparr>,
            \<lparr>mdoc_id = j, mdoc_text = v, mdoc_sender = BotSender, mdoc_createdAt = u\<rparr>])"
  using assms
  by (simp add: sendMessage_def fetchAIResponse_def fetchAIResponse_try_def addDoc_massages_def
      emit_def Let_def)

text \<open>
  Claim C2, as amended: a Send that passes the guard never hands an error to its caller.
  When the write of the human message (step 2) fails, nothing is appended: the error is
  logged and no further call is made. When that write succeeds and the call of the
  completion service or the write of its reply (steps 3 and 4) fails, the write of a
  message with the fixed apology and the sender bot is attempted: the log gains the human
  message and the apology when the store accepts it, and the human message alone when the
  store rejects it.
\<close>

theorem sendMessage_failure_handling:
  assumes "\<not> send_guard w" and "selectedRoom w = Some r"
  shows "(human_write env = Rejected \<longrightarrow>
            massages_col (sendMessage env w) = massages_col w \<and>
            trace (sendMessage env w) =
              trace w @ [SetInputMessage [], AddDoc (massages_path r), ConsoleError]) \<and>
         (\<forall>i t. human_write env = Accepted i t \<and> reply_fails env \<longrightarrow>
            (\<forall>j u. apology_write env = Accepted j u \<longrightarrow>
               massages_col (sendMessage env w) = (massages_col w)(r := massages_col w r @
                 [\<lparr>mdoc_id = i, mdoc_text = JStr (inputMessage w), mdoc_sender = UserSender, mdoc_createdAt = t\<rparr>,
                  \<lparr>mdoc_id = j, mdoc_text = JStr apology, mdoc_sender = BotSender, mdoc_createdAt = u\<rparr>])) \<and>
            (apology_write env = Rejected \<longrightarrow>
               massages_col (sendMessage env w) = (massages_col w)(r := massages_col w r @
                 [\<lparr>mdoc_id = i, mdoc_text = JStr (inputMessage w), mdoc_sender = UserSender, mdoc_createdAt = t\<rparr>])))"
proof (intro conjI impI allI)
  assume "human_write env = Rejected"
  with assms show "massages_col (sendMessage env w) = massages_col w"
    by (simp add: sendMessage_def addDoc_massages_def emit_def)
next
  assume "human_write env = Rejected"
  with assms show "trace (sendMessage env w) =
      trace w @ [SetInputMessage [], AddDoc (massages_path r), ConsoleError]"
    by (simp add: sendMessage_def addDoc_massages_def emit_def)
next
  fix i t j u
  assume "human_write env = Accepted i t \<and> reply_fails env" and "apology_write env = Accepted j u"
  then show "massages_col (sendMessage env w) = (massages_col w)(r := massages_col w r @
      [\<lparr>mdoc_id = i, mdoc_text = JStr (inputMessage w), mdoc_sender = UserSender, mdoc_createdAt = t\<rparr>,
       \<lparr>mdoc_id = j, mdoc_text = JStr apology, mdoc_sender = BotSender, mdoc_createdAt = u\<rparr>])"
    using assms
    by (simp add: sendMessage_def addDoc_massages_def emit_def Let_def massages_col_caught
        fetchAIResponse_fails)
next
  fix i t
  assume "human_write env = Accepted i t \<and> reply_fails env" and "apology_write env = Rejected"
  then show "massages_col (sendMessage env w) = (massages_col w)(r := massages_col w r @
      [\<lparr>mdoc_id = i, mdoc_text = JStr (inputMessage w), mdoc_sender = UserSender, mdoc_createdAt = t\<rparr>])"
    using assms
    by (simp add: sendMessage_def addDoc_massages_def emit_def Let_def massages_col_caught
        fetchAIResponse_fails)
qed

theorem sendMessage_failure_handling_witness:
  "massages_col (sendMessage human_write_fails hello_typed) ''r1'' = [] \<and>
   massages_col (sendMessage completion_fails hello_typed) ''r1'' =
     [\<lparr>mdoc_id = ''m1'', mdoc_text = JStr (js ''hello''), mdoc_sender = UserSender, mdoc_createdAt = 10\<rparr>,
      \<lparr>mdoc_id = ''m3'', mdoc_text = JStr apology, mdoc_sender = BotSender, mdoc_createdAt = 12\<rparr>] \<and>
   massages_col (sendMessage reply_write_fails hello_typed) ''r1'' =
     [\<lparr>mdoc_id = ''m1'', mdoc_text = JStr (js ''hello''), mdoc_sender = UserSender, mdoc_createdAt = 10\<rparr>,
      \<lparr>mdoc_id = ''m3'', mdoc_text = JStr apology, mdoc_sender = BotSender, mdoc_createdAt = 12\<rparr>] \<and>
   massages_col (sendMessage apology_write_fails hello_typed) ''r1'' =
     [\<lparr>mdoc_id = ''m1'', mdoc_text = JStr (js ''hello''), mdoc_sender = UserSender, mdoc_createdAt = 10\<rparr>]"
proof -
  have g: "\<not> send_guard hello_typed" and r: "selectedRoom hello_typed = Some ''r1''"
    by code_simp+
  have w: "massages_col hello_typed ''r1'' = []" "inputMessage hello_typed = js ''hello''"
    by code_simp+
  have a: "human_write human_write_fails = Rejected"
    by code_simp
  have b: "human_write completion_fails = Accepted ''m1'' 10" "reply_fails completion_fails"
    "apology_write completion_fails = Accepted ''m3'' 12"
    by code_simp+
  have c: "human_write reply_write_fails = Accepted ''m1'' 10" "reply_fails reply_write_fails"
    "apology_write reply_write_fails = Accepted ''m3'' 12"
    by code_simp+
  have d: "human_write apology_write_fails = Accepted ''m1'' 10" "reply_fails apology_write_fails"
    "apology_write apology_write_fails = Rejected"
    by code_simp+
  have "massages_col (sendMessage human_write_fails hello_typed) ''r1'' = []"
    using sendMessage_failure_handling [OF g r, of human_write_fails] a w by simp
  moreover have "massages_col (sendMessage completion_fails hello_typed) ''r1'' =
     [\<lparr>mdoc_id = ''m1'', mdoc_text = JStr (js ''hello''), mdoc_sender = UserSender, mdoc_createdAt = 10\<rparr>,
      \<lparr>mdoc_id = ''m3'', mdoc_text = JStr apology, mdoc_sender = BotSender, mdoc_createdAt = 12\<rparr>]"
    using sendMessage_failure_handling [OF g r, of completion_fails] b w by simp
  moreover have "massages_col (sendMessage reply_write_fails hello_typed) ''r1'' =
     [\<lparr>mdoc_id = ''m1'', mdoc_text = JStr (js ''hello''), mdoc_sender = UserSender, mdoc_createdAt = 10\<rparr>,
      \<lparr>mdoc_id = ''m3'', mdoc_text = JStr apology, mdoc_sender = BotSender, mdoc_createdAt = 12\<rparr>]"
    using sendMessage_failure_handling [OF g r, of reply_write_fails] c w by simp
  moreover have "massages_col (sendMessage apology_write_fails hello_typed) ''r1'' =
     [\<lparr>mdoc_id = ''m1'', mdoc_text = JStr (js ''hello''), mdoc_sender = UserSender, mdoc_createdAt = 10\<rparr>]"
    using sendMessage_failure_handling [OF g r, of apology_write_fails] d w by simp
  ultimately show ?thesis by simp
qed

text \<open>
  The claim as it was stated fails at step 2: with an identity, a selected room and the
  text "hello", a rejected write of the human message leaves the log of the room empty,
  without an apology.
\<close>

theorem sendMessage_step2_counterexample:
  "user hello_typed = Some alice \<and>
   selectedRoom hello_typed = Some ''r1'' \<and>
   inputMessage hello_typed = js ''hello'' \<and>
   human_write human_write_fails = Rejected \<and>
   massages_col (sendMessage human_write_fails hello_typed) ''r1'' = []"
  by code_simp

section \<open>Completion endpoint\<close>

text \<open>
  Supporting facts for claim C7, for any request at all: the handler answers 200, 400 or
  500, and 200 exactly when the body is JSON whose \<open>message\<close> is a non-empty string and
  the completion call returned a first choice.
\<close>

lemma POST_status:
  "status (POST req ai) \<in> {200, 400, 500}"
  by (simp add: POST_def Let_def split: option.splits sum.splits openai_outcome.splits list.splits)

lemma POST_success_iff:
  "status (POST req ai) = 200 \<longleftrightarrow>
     (\<exists>json m c cs. req = Some json \<and> get_prop json ''message'' = Inr (JStr m) \<and> m \<noteq> [] \<and>
        ai = Completion (c # cs))"
proof (cases req)
  case None
  then show ?thesis by (simp add: POST_def)
next
  case (Some json)
  show ?thesis
  proof (cases "get_prop json ''message''")
    case (Inl e)
    with Some show ?thesis by (simp add: POST_def)
  next
    case (Inr msg)
    with Some show ?thesis
      by (cases msg; cases ai)
        (auto simp add: POST_def Let_def split: list.splits)
  qed
qed

text \<open>
  Claim C7: for a request whose JSON body has a string \<open>message\<close>, the handler answers
  status 200 with the body \<open>{response: text}\<close> when the message is not empty and the
  completion call returns a first choice; the text is the content of the model, or the
  fixed fallback when the model gave no content. In every other case, an empty message or
  a failed completion call, the status is 400 or 500, so not a 2xx.
\<close>

theorem POST_contract:
  assumes "get_prop json ''message'' = Inr (JStr m)"
  shows "(\<forall>c cs. m \<noteq> [] \<and> ai = Completion (c # cs) \<longrightarrow>
            POST (Some json) ai =
              \<lparr>status = 200, body = JObj [(js ''response'', JStr (aiResponse c))]\<rparr> \<and>
            (\<forall>cm s. message c = Some cm \<and> content cm = Some s \<and> s \<noteq> [] \<longrightarrow> aiResponse c = s) \<and>
            (message c = None \<or>
             (\<exists>cm. message c = Some cm \<and> (content cm = None \<or> content cm = Some []))
               \<longrightarrow> aiResponse c = fallback_response)) \<and>
         (m = [] \<or> ai = OpenAIThrows \<or> ai = Completion [] \<longrightarrow>
            status (POST (Some json) ai) \<in> {400, 500} \<and>
            status (POST (Some json) ai) \<notin> {200..299})"
  using assms
  by (auto simp add: POST_def aiResponse_def Let_def split: option.splits)

theorem POST_contract_witness:
  "POST (Some (JObj [(js ''message'', JStr (js ''hello''))]))
      (Completion [\<lparr>message = Some \<lparr>content = Some (js ''hi there'')\<rparr>\<rparr>]) =
     \<lparr>status = 200, body = JObj [(js ''response'', JStr (js ''hi there''))]\<rparr> \<and>
   POST (Some (JObj [(js ''message'', JStr (js ''hello''))]))
      (Completion [\<lparr>message = Some \<lparr>content = None\<rparr>\<rparr>]) =
     \<lparr>status = 200, body = JObj [(js ''response'', JStr fallback_response)]\<rparr> \<and>
   status (POST (Some (JObj [(js ''message'', JStr (js ''hello''))])) OpenAIThrows) \<in> {400, 500} \<and>
   status (POST (Some (JObj [(js ''message'', JStr [])])) OpenAIThrows) \<in> {400, 500}"
proof -
  have h: "get_prop (JObj [(js ''message'', JStr (js ''hello''))]) ''message'' = Inr (JStr (js ''hello''))"
    and e: "get_prop (JObj [(js ''message'', JStr [])]) ''message'' = Inr (JStr [])"
    by simp_all
  have ne: "js ''hello'' \<noteq> []" "js ''hi there'' \<noteq> []"
    by (simp_all add: js_def)
  show ?thesis
    using POST_contract [OF h, of "Completion [\<lparr>message = Some \<lparr>content = Some (js ''hi there'')\<rparr>\<rparr>]"]
      POST_contract [OF h, of "Completion [\<lparr>message = Some \<lparr>content = None\<rparr>\<rparr>]"]
      POST_contract [OF h, of OpenAIThrows]
      POST_contract [OF e, of OpenAIThrows] ne
    by simp
qed

end
